theory Spec2Isabelle
  imports Main "HOL-Library.AList"
begin

section \<open>JavaScript values and the built-ins the component calls\<close>

text \<open>
  The node modal (\<^verbatim>\<open>src/features/modals/NodeModal/index.tsx\<close>) works on plain data:
  the rows of the selected node, the path of the node, the draft text and the value that
  \<^verbatim>\<open>JSON.parse\<close> makes of it. A value is \<^verbatim>\<open>undefined\<close>, \<^verbatim>\<open>null\<close>, a boolean, a number,
  a string, an array or a plain object (its properties in creation order).

  Numbers are the integers, printed in decimal: the component never computes with a
  number, it only prints it, and a fraction or an exponent would need JavaScript's
  floating point printing. Strings are byte strings (UTF-8).
\<close>

datatype jsvalue =
    JUndefined
  | JNull
  | JBool bool
  | JNumber int
  | JString string
  | JArray "jsvalue list"
  | JObject "(string \<times> jsvalue) list"

definition dquote :: char where
  "dquote = CHR 0x22"

definition backslash :: char where
  "backslash = CHR 0x5C"

definition newline :: char where
  "newline = CHR 0x0A"

subsection \<open>Number to string\<close>

definition digit_char :: "nat \<Rightarrow> char" where
  "digit_char n = ''0123456789'' ! n"

fun show_nat :: "nat \<Rightarrow> string" where
  "show_nat n = (if n < 10 then [digit_char n] else show_nat (n div 10) @ [digit_char (n mod 10)])"

declare show_nat.simps [simp del]

definition Number_toString :: "int \<Rightarrow> string" where
  "Number_toString i = (if i < 0 then CHR ''-'' # show_nat (nat (- i)) else show_nat (nat i))"

subsection \<open>\<^verbatim>\<open>Array.prototype.join\<close> on strings, and string conversion\<close>

fun join :: "string \<Rightarrow> string list \<Rightarrow> string" where
  "join sep [] = []"
| "join sep [x] = x"
| "join sep (x # y # ys) = x @ sep @ join sep (y # ys)"

text \<open>
  \<^verbatim>\<open>`${v}`\<close> is the string conversion of \<open>v\<close>. An array prints its elements joined by
  commas, with \<^verbatim>\<open>null\<close> and \<^verbatim>\<open>undefined\<close> elements empty; a plain object prints as
  \<^verbatim>\<open>[object Object]\<close> (an object that carries a property named \<^verbatim>\<open>toString\<close> of its own
  cannot be converted at all, and the modal cannot render such a row; it is not part of
  this model).
\<close>

fun ToString :: "jsvalue \<Rightarrow> string" where
  "ToString JUndefined = ''undefined''"
| "ToString JNull = ''null''"
| "ToString (JBool b) = (if b then ''true'' else ''false'')"
| "ToString (JNumber n) = Number_toString n"
| "ToString (JString s) = s"
| "ToString (JArray xs) =
     join '','' (map (\<lambda>x. case x of JUndefined \<Rightarrow> [] | JNull \<Rightarrow> [] | _ \<Rightarrow> ToString x) xs)"
| "ToString (JObject kvs) = ''[object Object]''"

subsection \<open>\<^verbatim>\<open>JSON.stringify\<close>\<close>

text \<open>
  A string is quoted with \<^verbatim>\<open>"\<close> and \<^verbatim>\<open>\\<close> escaped, the control characters below
  \<^verbatim>\<open>0x20\<close> written as \<^verbatim>\<open>\b \t \n \f \r\<close> or \<^verbatim>\<open>\u00XX\<close>, and every other byte as it is.
\<close>

definition hex_char :: "nat \<Rightarrow> char" where
  "hex_char n = ''0123456789abcdef'' ! n"

definition quote_char :: "char \<Rightarrow> string" where
  "quote_char c =
     (if c = CHR 0x08 then [backslash, CHR ''b'']
      else if c = CHR 0x09 then [backslash, CHR ''t'']
      else if c = CHR 0x0A then [backslash, CHR ''n'']
      else if c = CHR 0x0C then [backslash, CHR ''f'']
      else if c = CHR 0x0D then [backslash, CHR ''r'']
      else if c = dquote then [backslash, dquote]
      else if c = backslash then [backslash, backslash]
      else if (of_char c :: nat) < 32
        then [backslash, CHR ''u'', CHR ''0'', CHR ''0'',
              hex_char (of_char c div 16), hex_char (of_char c mod 16)]
      else [c])"

definition QuoteJSONString :: "string \<Rightarrow> string" where
  "QuoteJSONString s = dquote # concat (map quote_char s) @ [dquote]"

text \<open>
  The own property keys of an object come in JavaScript's order: the array indices (the
  decimal numerals of \<open>0 \<dots> 2\<^sup>3\<^sup>2 - 2\<close>) ascending, then every other key in the order
  of its creation.
\<close>

definition digit_value :: "char \<Rightarrow> nat option" where
  "digit_value c =
     map_of [(CHR ''0'', 0), (CHR ''1'', 1), (CHR ''2'', 2), (CHR ''3'', 3), (CHR ''4'', 4),
             (CHR ''5'', 5), (CHR ''6'', 6), (CHR ''7'', 7), (CHR ''8'', 8), (CHR ''9'', 9)] c"

fun parse_nat :: "nat \<Rightarrow> string \<Rightarrow> nat option" where
  "parse_nat acc [] = Some acc"
| "parse_nat acc (c # cs) =
     (case digit_value c of None \<Rightarrow> None | Some d \<Rightarrow> parse_nat (10 * acc + d) cs)"

definition array_index :: "string \<Rightarrow> nat option" where
  "array_index k =
     (if k = [] then None
      else case parse_nat 0 k of
        None \<Rightarrow> None
      | Some n \<Rightarrow> if n \<le> 4294967294 \<and> show_nat n = k then Some n else None)"

definition ownPropertyOrder :: "(string \<times> 'a) list \<Rightarrow> (string \<times> 'a) list" where
  "ownPropertyOrder kvs =
     map snd (sort_key fst
       (concat (map (\<lambda>(k, v). case array_index k of None \<Rightarrow> [] | Some n \<Rightarrow> [(n, (k, v))]) kvs)))
     @ filter (\<lambda>(k, v). array_index k = None) kvs"

text \<open>
  \<open>wrapJSON\<close> lays the members of an object or the elements of an array out: on one line
  when the gap is empty, otherwise one per line, indented by the gap once more than the
  bracket that closes them.
\<close>

definition wrapJSON :: "string \<Rightarrow> string \<Rightarrow> string \<Rightarrow> string \<Rightarrow> string list \<Rightarrow> string" where
  "wrapJSON left right gap indent partial =
     (if partial = [] then left @ right
      else if gap = [] then left @ join '','' partial @ right
      else left @ [newline] @ (indent @ gap)
           @ join ('','' @ [newline] @ (indent @ gap)) partial
           @ [newline] @ indent @ right)"

definition memberJSON :: "string \<Rightarrow> string \<times> string option \<Rightarrow> string list" where
  "memberJSON gap m =
     (case snd m of
        None \<Rightarrow> []
      | Some t \<Rightarrow> [QuoteJSONString (fst m) @ (if gap = [] then '':'' else '': '') @ t])"

fun SerializeJSONProperty :: "string \<Rightarrow> string \<Rightarrow> jsvalue \<Rightarrow> string option" where
  "SerializeJSONProperty gap indent JUndefined = None"
| "SerializeJSONProperty gap indent JNull = Some ''null''"
| "SerializeJSONProperty gap indent (JBool b) = Some (if b then ''true'' else ''false'')"
| "SerializeJSONProperty gap indent (JNumber n) = Some (Number_toString n)"
| "SerializeJSONProperty gap indent (JString s) = Some (QuoteJSONString s)"
| "SerializeJSONProperty gap indent (JArray xs) =
     Some (wrapJSON ''['' '']'' gap indent
       (map (\<lambda>x. case SerializeJSONProperty gap (indent @ gap) x of
                    None \<Rightarrow> ''null'' | Some t \<Rightarrow> t) xs))"
| "SerializeJSONProperty gap indent (JObject kvs) =
     Some (wrapJSON ''{'' ''}'' gap indent
       (concat (map (memberJSON gap)
         (ownPropertyOrder
           (map (\<lambda>(k, v). (k, SerializeJSONProperty gap (indent @ gap) v)) kvs)))))"

text \<open>
  \<^verbatim>\<open>JSON.stringify(value, null, space)\<close> with a number for \<open>space\<close>: the gap is that many
  blanks, ten at most. The result is \<^verbatim>\<open>undefined\<close> (here \<open>None\<close>) for the value
  \<^verbatim>\<open>undefined\<close> only.
\<close>

definition JSON_stringify :: "jsvalue \<Rightarrow> nat \<Rightarrow> string option" where
  "JSON_stringify v space = SerializeJSONProperty (replicate (min 10 space) CHR '' '') [] v"

subsection \<open>Objects under construction\<close>

text \<open>
  \<^verbatim>\<open>const obj = {}\<close> makes an object with no property of its own, whose prototype is
  \<^verbatim>\<open>Object.prototype\<close>. The assignment \<^verbatim>\<open>obj[k] = v\<close> sets the own property \<open>k\<close>, in
  place when \<open>obj\<close> has it and as its newest property otherwise; with one exception, the
  key \<^verbatim>\<open>__proto__\<close>. As long as \<open>obj\<close> has no own property of that name and inherits the
  accessor of \<^verbatim>\<open>Object.prototype\<close>, the assignment runs that accessor: it makes \<open>v\<close> the
  prototype of \<open>obj\<close> when \<open>v\<close> is \<^verbatim>\<open>null\<close>, an array or an object, does nothing for any
  other \<open>v\<close>, and creates no property. The accessor is no longer inherited once the
  prototype is \<^verbatim>\<open>null\<close>, or is an object with an own property \<^verbatim>\<open>__proto__\<close>.
\<close>

datatype prototype = ObjectPrototype | NullPrototype | ValuePrototype jsvalue

record jsobject =
  proto :: prototype
  props :: "(string \<times> jsvalue) list"

definition new_object :: jsobject where
  "new_object = \<lparr>proto = ObjectPrototype, props = []\<rparr>"

fun inherits_proto_accessor :: "prototype \<Rightarrow> bool" where
  "inherits_proto_accessor ObjectPrototype = True"
| "inherits_proto_accessor NullPrototype = False"
| "inherits_proto_accessor (ValuePrototype (JObject kvs)) = (map_of kvs ''__proto__'' = None)"
| "inherits_proto_accessor (ValuePrototype v) = True"

fun set_prototype :: "jsobject \<Rightarrow> jsvalue \<Rightarrow> jsobject" where
  "set_prototype obj JNull = obj\<lparr>proto := NullPrototype\<rparr>"
| "set_prototype obj (JArray xs) = obj\<lparr>proto := ValuePrototype (JArray xs)\<rparr>"
| "set_prototype obj (JObject kvs) = obj\<lparr>proto := ValuePrototype (JObject kvs)\<rparr>"
| "set_prototype obj v = obj"

definition js_set :: "jsobject \<Rightarrow> string \<Rightarrow> jsvalue \<Rightarrow> jsobject" where
  "js_set obj k v =
     (if k = ''__proto__'' \<and> map_of (props obj) k = None \<and> inherits_proto_accessor (proto obj)
      then set_prototype obj v
      else obj\<lparr>props := AList.update k v (props obj)\<rparr>)"

text \<open>
  \<^verbatim>\<open>JSON.stringify\<close> of such an object prints its own properties; the prototype plays no
  part, and the result is always a string.
\<close>

definition JSON_stringify_object :: "jsobject \<Rightarrow> nat \<Rightarrow> string" where
  "JSON_stringify_object obj space =
     (case JSON_stringify (JObject (props obj)) space of Some t \<Rightarrow> t | None \<Rightarrow> [])"

section \<open>The node and its two pure helpers\<close>

text \<open>
  Modelled from the spec: the declaration of \<^verbatim>\<open>NodeData\<close> (\<^verbatim>\<open>types/graph\<close>) is not among
  the sources. A node has a \<^verbatim>\<open>path\<close>, which may be missing, and a \<^verbatim>\<open>text\<close>, its rows; a row
  may carry a key, carries a value and may carry a type tag. A path segment is a string
  key or a number. The fields \<open>val\<close>, \<open>nodeText\<close> and \<open>nodePath\<close> are the source's
  \<^verbatim>\<open>value\<close>, \<^verbatim>\<open>text\<close> and \<^verbatim>\<open>path\<close> (the first two are reserved words here).
\<close>

record row =
  key :: "string option"
  val :: jsvalue
  type :: "string option"

datatype segment = Key string | Index int

record node =
  nodeText :: "row list"
  nodePath :: "segment list option"

subsection \<open>\<^verbatim>\<open>normalizeNodeData\<close>\<close>

text \<open>
  \<^verbatim>\<open>!row.key\<close> holds of a missing key and of the empty string. The loop over the rows is
  a left fold whose state is \<open>obj\<close>.
\<close>

definition falsy_key :: "string option \<Rightarrow> bool" where
  "falsy_key k = (case k of None \<Rightarrow> True | Some s \<Rightarrow> s = [])"

definition addRow :: "jsobject \<Rightarrow> row \<Rightarrow> jsobject" where
  "addRow obj r =
     (if type r \<noteq> Some ''array'' \<and> type r \<noteq> Some ''object''
      then (case key r of
              None \<Rightarrow> obj
            | Some k \<Rightarrow> if k \<noteq> [] then js_set obj k (val r) else obj)
      else obj)"

definition normalizeNodeData :: "row list option \<Rightarrow> string" where
  "normalizeNodeData nodeRows =
     (case nodeRows of
        None \<Rightarrow> ''{}''
      | Some rows \<Rightarrow>
          if length rows = 0 then ''{}''
          else if length rows = 1 \<and> falsy_key (key (rows ! 0)) then ToString (val (rows ! 0))
          else JSON_stringify_object (foldl addRow new_object rows) 2)"

subsection \<open>\<^verbatim>\<open>jsonPathToString\<close>\<close>

definition segmentText :: "segment \<Rightarrow> string" where
  "segmentText seg =
     (case seg of Index n \<Rightarrow> Number_toString n | Key s \<Rightarrow> [dquote] @ s @ [dquote])"

definition jsonPathToString :: "segment list option \<Rightarrow> string" where
  "jsonPathToString p =
     (case p of
        None \<Rightarrow> ''$''
      | Some segs \<Rightarrow>
          if length segs = 0 then ''$''
          else ''$['' @ join '']['' (map segmentText segs) @ '']'')"

section \<open>The edit session\<close>

subsection \<open>What the component does not own\<close>

text \<open>
  A thrown value is an \<^verbatim>\<open>Error\<close> object, with its name and its message. \<^verbatim>\<open>String(err)\<close>
  prints the name, the message, or both with a colon between.
\<close>

datatype thrown = JsError (errName: string) (errMessage: string)

definition Error_toString :: "thrown \<Rightarrow> string" where
  "Error_toString err =
     (if errName err = [] then errMessage err
      else if errMessage err = [] then errName err
      else errName err @ '': '' @ errMessage err)"

text \<open>
  \<^verbatim>\<open>JSON.parse\<close> is the language's, and \<^verbatim>\<open>modify\<close> and \<^verbatim>\<open>applyEdits\<close> are the package
  \<^verbatim>\<open>jsonc-parser\<close>'s: none of them is among the sources, so the session takes them as
  parameters. Each returns or throws. The document is a text that the component never
  looks into: it reads it from one store, hands it to \<^verbatim>\<open>jsonc-parser\<close> and writes the
  result back, so the type \<open>'d\<close> of documents is left open, and so is the type \<open>'e\<close> of
  the edits that \<^verbatim>\<open>modify\<close> returns.
\<close>

record formattingOptions =
  insertSpaces :: bool
  tabSize :: nat

record ('d, 'e) library =
  JSON_parse :: "string \<Rightarrow> thrown + jsvalue"
  modify :: "'d \<Rightarrow> segment list \<Rightarrow> jsvalue \<Rightarrow> formattingOptions \<Rightarrow> thrown + 'e"
  applyEdits :: "'d \<Rightarrow> 'e \<Rightarrow> thrown + 'd"

text \<open>
  Modelled from the spec: the stores \<^verbatim>\<open>useGraph\<close>, \<^verbatim>\<open>useJson\<close> and \<^verbatim>\<open>useFile\<close> and the
  parent that owns the props \<^verbatim>\<open>opened\<close> and \<^verbatim>\<open>onClose\<close> are not among the sources.
  \<^verbatim>\<open>setJson\<close> replaces the shared document, \<^verbatim>\<open>setContents\<close> replaces the contents of the
  file store and records whether it has unsaved changes, and \<^verbatim>\<open>onClose\<close> closes the
  dialog. The session is the state the component reads and writes: the three stores, the
  prop \<^verbatim>\<open>opened\<close>, and its own three state variables (\<open>draft\<close> is the one the source
  calls \<^verbatim>\<open>value\<close>).
\<close>

record 'd fileStore =
  contents :: 'd
  hasChanges :: bool

record 'd contentsUpdate =
  newContents :: 'd
  newHasChanges :: bool
  skipUpdate :: bool

record 'd session =
  selectedNode :: "node option"
  json :: 'd
  fileState :: "'d fileStore"
  opened :: bool
  editing :: bool
  draft :: string
  error :: "string option"

definition getJson :: "'d session \<Rightarrow> 'd" where
  "getJson st = json st"

definition setJson :: "'d \<Rightarrow> 'd session \<Rightarrow> 'd session" where
  "setJson newJson st = st\<lparr>json := newJson\<rparr>"

definition setFileContents :: "'d contentsUpdate \<Rightarrow> 'd session \<Rightarrow> 'd session" where
  "setFileContents u st =
     st\<lparr>fileState := \<lparr>contents = newContents u, hasChanges = newHasChanges u\<rparr>\<rparr>"

definition onClose :: "'d session \<Rightarrow> 'd session" where
  "onClose st = st\<lparr>opened := False\<rparr>"

subsection \<open>The effect and the handlers\<close>

text \<open>\<^verbatim>\<open>nodeData?.text ?? []\<close>: the rows of the selected node, none when no node is selected.\<close>

definition selectedRows :: "'d session \<Rightarrow> row list" where
  "selectedRows st = (case selectedNode st of None \<Rightarrow> [] | Some nodeData \<Rightarrow> nodeText nodeData)"

text \<open>The body of the effect whose dependencies are \<^verbatim>\<open>[nodeData, opened]\<close>.\<close>

definition nodeEffect :: "'d session \<Rightarrow> 'd session" where
  "nodeEffect st =
     st\<lparr>editing := False, error := None, draft := normalizeNodeData (Some (selectedRows st))\<rparr>"

text \<open>
  React runs the effect after a render in which a dependency has changed. The graph store
  selecting a node gives \<^verbatim>\<open>nodeData\<close> a new object, so the effect runs; the parent
  setting \<^verbatim>\<open>opened\<close> runs it when the value is a new one.
\<close>

definition selectNode :: "node option \<Rightarrow> 'd session \<Rightarrow> 'd session" where
  "selectNode n st = nodeEffect (st\<lparr>selectedNode := n\<rparr>)"

definition setOpened :: "bool \<Rightarrow> 'd session \<Rightarrow> 'd session" where
  "setOpened b st = (if b = opened st then st else nodeEffect (st\<lparr>opened := b\<rparr>))"

definition handleEdit :: "'d session \<Rightarrow> 'd session" where
  "handleEdit st = st\<lparr>editing := True\<rparr>"

text \<open>The text area's \<^verbatim>\<open>onChange\<close>.\<close>

definition handleChange :: "string \<Rightarrow> 'd session \<Rightarrow> 'd session" where
  "handleChange s st = st\<lparr>draft := s\<rparr>"

definition handleCancel :: "'d session \<Rightarrow> 'd session" where
  "handleCancel st =
     st\<lparr>editing := False, error := None, draft := normalizeNodeData (Some (selectedRows st))\<rparr>"

text \<open>The close button and the modal's own \<^verbatim>\<open>onClose\<close>: \<^verbatim>\<open>() => { onClose(); handleCancel(); }\<close>.\<close>

definition handleClose :: "'d session \<Rightarrow> 'd session" where
  "handleClose st = handleCancel (onClose st)"

text \<open>
  \<^verbatim>\<open>handleSave\<close> has two \<^verbatim>\<open>try\<close> blocks. The first parses the draft and falls back to the
  draft itself, as a string. The second computes the new document, which is where
  \<^verbatim>\<open>jsonc-parser\<close> may throw, and only then writes to the stores; its \<^verbatim>\<open>catch\<close> sets the
  error to \<^verbatim>\<open>err?.message || String(err)\<close>.
\<close>

definition parseDraft :: "('d, 'e) library \<Rightarrow> string \<Rightarrow> jsvalue" where
  "parseDraft lib s = (case JSON_parse lib s of Inl e \<Rightarrow> JString s | Inr parsed \<Rightarrow> parsed)"

definition saveFormatting :: formattingOptions where
  "saveFormatting = \<lparr>insertSpaces = True, tabSize = 2\<rparr>"

definition patchDocument ::
    "('d, 'e) library \<Rightarrow> 'd \<Rightarrow> node \<Rightarrow> jsvalue \<Rightarrow> thrown + 'd" where
  "patchDocument lib originalJson nodeData parsed =
     (let p = (case nodePath nodeData of None \<Rightarrow> [] | Some segs \<Rightarrow> segs)
      in case modify lib originalJson p parsed saveFormatting of
           Inl err \<Rightarrow> Inl err
         | Inr edits \<Rightarrow> applyEdits lib originalJson edits)"

definition errorText :: "thrown \<Rightarrow> string" where
  "errorText err = (if errMessage err \<noteq> [] then errMessage err else Error_toString err)"

definition handleSave :: "('d, 'e) library \<Rightarrow> 'd session \<Rightarrow> 'd session" where
  "handleSave lib st =
     (case selectedNode st of
        None \<Rightarrow> st
      | Some nodeData \<Rightarrow>
          (let originalJson = getJson st;
               parsed = parseDraft lib (draft st)
           in (case patchDocument lib originalJson nodeData parsed of
                 Inr newJson \<Rightarrow>
                   (let st1 = setJson newJson st;
                        st2 = setFileContents
                                \<lparr>newContents = newJson, newHasChanges = False, skipUpdate = True\<rparr>
                                st1;
                        st3 = st2\<lparr>editing := False\<rparr>
                    in onClose st3)
               | Inl err \<Rightarrow> st\<lparr>error := Some (errorText err)\<rparr>)))"

text \<open>The error line is rendered when \<^verbatim>\<open>error\<close> is a string that is not empty.\<close>

definition errorShown :: "'d session \<Rightarrow> string option" where
  "errorShown st = (case error st of None \<Rightarrow> None | Some m \<Rightarrow> if m = [] then None else Some m)"

section \<open>The document patcher of the specification\<close>

text \<open>
  Modelled from the spec: \<^verbatim>\<open>modify\<close> and \<^verbatim>\<open>applyEdits\<close> of \<^verbatim>\<open>jsonc-parser\<close> are not among
  the sources. The specification gives their contract: \<^verbatim>\<open>patch(document, path, newValue)\<close>
  changes only the value at the path, and fails with a \<^verbatim>\<open>PatchError\<close> if the path does
  not address a valid location. Here the document is the JSON value that its text
  denotes. A path addresses the document itself when it is empty, the member of an
  object under a key that the object has, and the element of an array at an index within
  its length. The edit that \<^verbatim>\<open>modify\<close> returns is the path with the new value.
\<close>

fun resolve :: "jsvalue \<Rightarrow> segment list \<Rightarrow> jsvalue option" where
  "resolve d [] = Some d"
| "resolve (JObject kvs) (Key k # p) =
     (case map_of kvs k of None \<Rightarrow> None | Some c \<Rightarrow> resolve c p)"
| "resolve (JArray xs) (Index i # p) =
     (if 0 \<le> i \<and> nat i < length xs then resolve (xs ! nat i) p else None)"
| "resolve d (seg # p) = None"

definition PatchError :: thrown where
  "PatchError = JsError ''Error'' ''PatchError: the path does not address a location''"

fun patch :: "jsvalue \<Rightarrow> segment list \<Rightarrow> jsvalue \<Rightarrow> thrown + jsvalue" where
  "patch d [] v = Inr v"
| "patch (JObject kvs) (Key k # p) v =
     (case map_of kvs k of
        None \<Rightarrow> Inl PatchError
      | Some c \<Rightarrow>
          (case patch c p v of
             Inl err \<Rightarrow> Inl err
           | Inr c' \<Rightarrow> Inr (JObject (AList.update k c' kvs))))"
| "patch (JArray xs) (Index i # p) v =
     (if 0 \<le> i \<and> nat i < length xs
      then (case patch (xs ! nat i) p v of
              Inl err \<Rightarrow> Inl err
            | Inr c' \<Rightarrow> Inr (JArray (xs[nat i := c'])))
      else Inl PatchError)"
| "patch d (seg # p) v = Inl PatchError"

definition is_scalar :: "jsvalue \<Rightarrow> bool" where
  "is_scalar v = (case v of JArray xs \<Rightarrow> False | JObject kvs \<Rightarrow> False | _ \<Rightarrow> True)"

definition specLibrary ::
    "(string \<Rightarrow> thrown + jsvalue) \<Rightarrow> (jsvalue, segment list \<times> jsvalue) library" where
  "specLibrary parse =
     \<lparr>JSON_parse = parse,
      modify = (\<lambda>d p v opts. case resolve d p of None \<Rightarrow> Inl PatchError | Some old \<Rightarrow> Inr (p, v)),
      applyEdits = (\<lambda>d e. patch d (fst e) (snd e))\<rparr>"

section \<open>Vocabulary of the properties\<close>

text \<open>The two shared stores of a session, side by side.\<close>

definition stores :: "'d session \<Rightarrow> 'd \<times> 'd fileStore" where
  "stores st = (json st, fileState st)"

text \<open>
  A row whose type is neither \<^verbatim>\<open>array\<close> nor \<^verbatim>\<open>object\<close>; the key of a row as a string; the
  rows that get past both tests of the loop; and the assignment \<^verbatim>\<open>obj[row.key] = row.value\<close>
  on its own.
\<close>

definition scalarRow :: "row \<Rightarrow> bool" where
  "scalarRow r = (type r \<noteq> Some ''array'' \<and> type r \<noteq> Some ''object'')"

definition rowKey :: "row \<Rightarrow> string" where
  "rowKey r = (case key r of None \<Rightarrow> [] | Some k \<Rightarrow> k)"

definition contributes :: "row \<Rightarrow> bool" where
  "contributes r = (scalarRow r \<and> \<not> falsy_key (key r))"

definition assignRow :: "jsobject \<Rightarrow> row \<Rightarrow> jsobject" where
  "assignRow obj r = js_set obj (rowKey r) (val r)"


text \<open>The rendering of one path segment in the words of the specification.\<close>

definition bracketed :: "segment \<Rightarrow> string" where
  "bracketed seg =
     (case seg of
        Index n \<Rightarrow> ''['' @ Number_toString n @ '']''
      | Key s \<Rightarrow> ''['' @ [dquote] @ s @ [dquote] @ '']'')"

subsection \<open>A session to run the handlers on\<close>

text \<open>
  The session of the specification's example: the node at the path \<^verbatim>\<open>["name"]\<close>, whose
  one row is the number 42, in a dialog that is open and in edit mode. \<open>exampleParse\<close>
  stands for \<^verbatim>\<open>JSON.parse\<close> on the two drafts used below: \<^verbatim>\<open>42\<close> is the number 42, and
  \<^verbatim>\<open>abc\<close> is a syntax error.
\<close>

definition exampleParse :: "string \<Rightarrow> thrown + jsvalue" where
  "exampleParse s =
     (if s = ''42'' then Inr (JNumber 42)
      else Inl (JsError ''SyntaxError'' ''Unexpected token''))"

definition exampleNode :: node where
  "exampleNode =
     \<lparr>nodeText = [\<lparr>key = None, val = JNumber 42, type = Some ''number''\<rparr>],
      nodePath = Some [Key ''name'']\<rparr>"

definition exampleSession :: "jsvalue \<Rightarrow> string \<Rightarrow> jsvalue session" where
  "exampleSession d s =
     \<lparr>selectedNode = Some exampleNode, json = d,
      fileState = \<lparr>contents = d, hasChanges = True\<rparr>,
      opened = True, editing = True, draft = s, error = None\<rparr>"

subsection \<open>A patcher that adds a missing member\<close>

text \<open>
  Whether a path that addresses nothing makes the patcher throw is up to the patcher.
  \<^verbatim>\<open>jsonc-parser\<close>'s \<^verbatim>\<open>modify\<close> throws at a key into an array, but where the last segment is
  a key that the object it is applied to lacks, it adds the member. \<open>insertingLibrary\<close> is
  the patcher of the specification with that difference, for the example that shows it.
\<close>

fun patchOrInsert :: "jsvalue \<Rightarrow> segment list \<Rightarrow> jsvalue \<Rightarrow> thrown + jsvalue" where
  "patchOrInsert d [] v = Inr v"
| "patchOrInsert (JObject kvs) [Key k] v = Inr (JObject (AList.update k v kvs))"
| "patchOrInsert (JObject kvs) (Key k # seg # p) v =
     (case map_of kvs k of
        None \<Rightarrow> Inl PatchError
      | Some c \<Rightarrow>
          (case patchOrInsert c (seg # p) v of
             Inl err \<Rightarrow> Inl err
           | Inr c' \<Rightarrow> Inr (JObject (AList.update k c' kvs))))"
| "patchOrInsert (JArray xs) (Index i # p) v =
     (if 0 \<le> i \<and> nat i < length xs
      then (case patchOrInsert (xs ! nat i) p v of
              Inl err \<Rightarrow> Inl err
            | Inr c' \<Rightarrow> Inr (JArray (xs[nat i := c'])))
      else Inl PatchError)"
| "patchOrInsert d (seg # p) v = Inl PatchError"

definition insertingLibrary ::
    "(string \<Rightarrow> thrown + jsvalue) \<Rightarrow> (jsvalue, segment list \<times> jsvalue) library" where
  "insertingLibrary parse =
     \<lparr>JSON_parse = parse,
      modify = (\<lambda>d p v opts. case patchOrInsert d p v of Inl err \<Rightarrow> Inl err | Inr d' \<Rightarrow> Inr (p, v)),
      applyEdits = (\<lambda>d e. patchOrInsert d (fst e) (snd e))\<rparr>"

section \<open>Evaluation and auxiliary facts\<close>

lemma show_nat_digit [simp]: "n < 10 \<Longrightarrow> show_nat n = [digit_char n]"
  by (simp add: show_nat.simps)

lemma show_nat_more [simp]:
  "\<not> n < 10 \<Longrightarrow> show_nat n = show_nat (n div 10) @ [digit_char (n mod 10)]"
  by (subst show_nat.simps) simp

lemmas evaluation =
  normalizeNodeData_def falsy_key_def addRow_def js_set_def new_object_def
  JSON_stringify_object_def JSON_stringify_def wrapJSON_def memberJSON_def
  ownPropertyOrder_def array_index_def digit_value_def QuoteJSONString_def quote_char_def
  Number_toString_def digit_char_def dquote_def backslash_def newline_def numeral_2_eq_2

subsection \<open>The three outcomes of \<open>handleSave\<close>\<close>

lemma handleSave_no_node: "selectedNode st = None \<Longrightarrow> handleSave lib st = st"
  by (simp add: handleSave_def)

lemma handleSave_throws:
  assumes "selectedNode st = Some nodeData"
    and "patchDocument lib (json st) nodeData (parseDraft lib (draft st)) = Inl err"
  shows "handleSave lib st = st\<lparr>error := Some (errorText err)\<rparr>"
  using assms by (simp add: handleSave_def getJson_def)

lemma handleSave_returns:
  assumes "selectedNode st = Some nodeData"
    and "patchDocument lib (json st) nodeData (parseDraft lib (draft st)) = Inr newJson"
  shows "handleSave lib st =
         st\<lparr>json := newJson, fileState := \<lparr>contents = newJson, hasChanges = False\<rparr>,
            editing := False, opened := False\<rparr>"
  using assms
  by (simp add: handleSave_def getJson_def setJson_def setFileContents_def onClose_def)

subsection \<open>The patcher of the specification\<close>

lemma specLibrary_parse: "JSON_parse (specLibrary parse) = parse"
  by (simp add: specLibrary_def)

lemma specLibrary_patchDocument:
  "patchDocument (specLibrary parse) d nodeData v =
     (let p = (case nodePath nodeData of None \<Rightarrow> [] | Some segs \<Rightarrow> segs)
      in case resolve d p of None \<Rightarrow> Inl PatchError | Some old \<Rightarrow> patch d p v)"
  by (simp add: patchDocument_def specLibrary_def split: option.splits)

lemma patch_then_resolve:
  "resolve d p = Some old \<Longrightarrow> \<exists>d'. patch d p v = Inr d' \<and> resolve d' p = Some v"
proof (induction d p arbitrary: old rule: resolve.induct)
  case (1 d)
  then show ?case by simp
next
  case (2 kvs k p)
  then obtain c where c: "map_of kvs k = Some c" "resolve c p = Some old"
    by (auto split: option.splits)
  with "2.IH" obtain c' where "patch c p v = Inr c'" "resolve c' p = Some v"
    by blast
  with c show ?case by (simp add: update_conv')
next
  case (3 xs i p)
  then have i: "0 \<le> i" "nat i < length xs" "resolve (xs ! nat i) p = Some old"
    by (auto split: if_splits)
  with "3.IH" obtain c' where "patch (xs ! nat i) p v = Inr c'" "resolve c' p = Some v"
    by blast
  with i show ?case by simp
qed simp_all

text \<open>
  With the patcher of the specification, a save at a path that addresses nothing sets the
  error and does nothing else.
\<close>

lemma handleSave_specLibrary_stale_path:
  assumes "selectedNode st = Some nodeData"
    and "resolve (json st) (case nodePath nodeData of None \<Rightarrow> [] | Some segs \<Rightarrow> segs) = None"
  shows "handleSave (specLibrary parse) st = st\<lparr>error := Some (errorText PatchError)\<rparr>"
proof -
  from assms(2) have
    "patchDocument (specLibrary parse) (json st) nodeData
       (parseDraft (specLibrary parse) (draft st)) = Inl PatchError"
    by (simp add: specLibrary_patchDocument)
  with assms(1) show ?thesis by (rule handleSave_throws)
qed

subsection \<open>The loop of \<open>normalizeNodeData\<close>\<close>

lemma addRow_contributes: "addRow obj r = (if contributes r then assignRow obj r else obj)"
  by (simp add: addRow_def contributes_def scalarRow_def falsy_key_def assignRow_def rowKey_def
      split: option.splits)

lemma addRow_falsy: "falsy_key (key r) \<Longrightarrow> addRow obj r = obj"
  by (simp add: addRow_def falsy_key_def split: option.splits)


lemma foldl_addRow_truthy:
  "foldl addRow obj (filter (\<lambda>r. \<not> falsy_key (key r)) rows) = foldl addRow obj rows"
  by (induction rows arbitrary: obj) (simp_all add: addRow_falsy)

lemma stringify_new_object: "JSON_stringify_object new_object 2 = ''{}''"
  by (simp add: evaluation)



lemma normalize_many:
  assumes "rows \<noteq> []" and "\<not> (length rows = 1 \<and> falsy_key (key (hd rows)))"
  shows "normalizeNodeData (Some rows) = JSON_stringify_object (foldl addRow new_object rows) 2"
proof -
  from assms(1) have "rows ! 0 = hd rows" by (simp add: hd_conv_nth)
  with assms show ?thesis by (auto simp: normalizeNodeData_def)
qed




lemma js_set_keys:
  "fst ` set (props (js_set obj k v)) \<subseteq> insert k (fst ` set (props obj))"
proof (cases "k = ''__proto__'' \<and> map_of (props obj) k = None \<and> inherits_proto_accessor (proto obj)")
  case True
  then have "js_set obj k v = set_prototype obj v"
    by (auto simp: js_set_def)
  then have "props (js_set obj k v) = props obj"
    by (cases v) simp_all
  then show ?thesis by auto
next
  case False
  then have "props (js_set obj k v) = AList.update k v (props obj)"
    by (auto simp: js_set_def)
  then show ?thesis
    by (simp add: dom_update)
qed

lemma addRow_keys:
  assumes "k \<in> fst ` set (props (addRow obj r))"
  shows "k \<in> fst ` set (props obj) \<or> (key r = Some k \<and> k \<noteq> [] \<and> scalarRow r)"
proof (cases "contributes r")
  case True
  then obtain k' where k': "key r = Some k'" "k' \<noteq> []" "scalarRow r"
    by (auto simp: contributes_def falsy_key_def split: option.splits)
  with True have "addRow obj r = js_set obj k' (val r)"
    by (simp add: addRow_contributes assignRow_def rowKey_def)
  with assms js_set_keys [of obj k' "val r"] k' show ?thesis by auto
next
  case False
  with assms show ?thesis by (simp add: addRow_contributes)
qed

lemma foldl_addRow_keys:
  "k \<in> fst ` set (props (foldl addRow obj rows)) \<Longrightarrow>
     k \<in> fst ` set (props obj) \<or> (\<exists>r\<in>set rows. key r = Some k \<and> k \<noteq> [] \<and> scalarRow r)"
proof (induction rows arbitrary: obj)
  case Nil
  then show ?case by simp
next
  case (Cons r rows)
  from Cons.IH [of "addRow obj r"] Cons.prems
  have "k \<in> fst ` set (props (addRow obj r))
        \<or> (\<exists>r\<in>set rows. key r = Some k \<and> k \<noteq> [] \<and> scalarRow r)"
    by simp
  with addRow_keys [of k obj r] show ?case by auto
qed

lemma normalize_drops_falsy:
  assumes "\<not> (length rows = 1 \<and> falsy_key (key (hd rows)))"
  shows "normalizeNodeData (Some (filter (\<lambda>r. \<not> falsy_key (key r)) rows))
           = normalizeNodeData (Some rows)"
proof (cases "rows = []")
  case True
  then show ?thesis by simp
next
  case False
  let ?kept = "filter (\<lambda>r. \<not> falsy_key (key r)) rows"
  from False assms have many:
    "normalizeNodeData (Some rows) = JSON_stringify_object (foldl addRow new_object rows) 2"
    by (rule normalize_many)
  show ?thesis
  proof (cases "?kept = []")
    case True
    with foldl_addRow_truthy [of new_object rows] have "foldl addRow new_object rows = new_object"
      by simp
    with many True show ?thesis
      by (simp add: stringify_new_object) (simp add: normalizeNodeData_def)
  next
    case kept: False
    then have "hd ?kept \<in> set ?kept" by (rule hd_in_set)
    then have "\<not> falsy_key (key (hd ?kept))" by simp
    with kept have
      "normalizeNodeData (Some ?kept) = JSON_stringify_object (foldl addRow new_object ?kept) 2"
      by (intro normalize_many) simp_all
    with many show ?thesis by (simp add: foldl_addRow_truthy)
  qed
qed

subsection \<open>Joining bracketed segments\<close>

lemma join_brackets:
  "xs \<noteq> [] \<Longrightarrow>
     ''['' @ join '']['' (map f xs) @ '']'' = concat (map (\<lambda>x. ''['' @ f x @ '']'') xs)"
proof (induction xs)
  case Nil
  then show ?case by simp
next
  case (Cons x xs)
  then show ?case by (cases xs) simp_all
qed

lemma bracketed_segmentText: "bracketed = (\<lambda>seg. ''['' @ segmentText seg @ '']'')"
  by (rule ext) (simp add: bracketed_def segmentText_def split: segment.splits)

subsection \<open>Typing into the text area\<close>

lemma cancel_after_typing:
  "handleCancel (foldl (\<lambda>s t. handleChange t s) st typed) = handleCancel st"
  by (induction typed arbitrary: st) (simp_all add: handleChange_def handleCancel_def selectedRows_def)

section \<open>Saving\<close>

text \<open>
  C1, as amended. Whenever the patcher throws at the path of the selected node, as it
  does when the path cannot be applied to the current document, \<open>handleSave\<close> does
  nothing but set the error to the message of what was thrown (to its name when it has no
  message): the message is shown as the error line, the edit mode and the open dialog
  stay as they were, and the shared document and the file store are unchanged. The
  witness runs the patcher of the specification on the document \<^verbatim>\<open>[1]\<close>, in which the path \<^verbatim>\<open>["name"]\<close> addresses
  nothing.
\<close>

theorem handleSave_patch_error:
  assumes "selectedNode st = Some nodeData"
    and "patchDocument lib (getJson st) nodeData (parseDraft lib (draft st)) = Inl err"
  shows "handleSave lib st = st\<lparr>error := Some (errorText err)\<rparr>
       \<and> error (handleSave lib st) = Some (errorText err)
       \<and> errorShown (handleSave lib st) = (if errorText err = [] then None else Some (errorText err))
       \<and> editing (handleSave lib st) = editing st
       \<and> opened (handleSave lib st) = opened st
       \<and> json (handleSave lib st) = json st
       \<and> fileState (handleSave lib st) = fileState st
       \<and> errorText (JsError ''Error'' ''Can not add index to parent of type array'')
           = ''Can not add index to parent of type array''
       \<and> errorText (JsError ''TypeError'' []) = ''TypeError''"
  using assms
  by (simp add: handleSave_def getJson_def errorShown_def) (simp add: errorText_def Error_toString_def)

theorem handleSave_patch_error_witness:
  "resolve (JArray [JNumber 1]) [Key ''name''] = None
   \<and> handleSave (specLibrary exampleParse) (exampleSession (JArray [JNumber 1]) ''42'')
     = (exampleSession (JArray [JNumber 1]) ''42'')\<lparr>error := Some (errorText PatchError)\<rparr>
   \<and> errorShown (handleSave (specLibrary exampleParse) (exampleSession (JArray [JNumber 1]) ''42''))
     = Some ''PatchError: the path does not address a location''
   \<and> editing (handleSave (specLibrary exampleParse) (exampleSession (JArray [JNumber 1]) ''42''))
   \<and> opened (handleSave (specLibrary exampleParse) (exampleSession (JArray [JNumber 1]) ''42''))
   \<and> json (handleSave (specLibrary exampleParse) (exampleSession (JArray [JNumber 1]) ''42''))
     = JArray [JNumber 1]"
proof -
  let ?st = "exampleSession (JArray [JNumber 1]) ''42''"
  have node: "selectedNode ?st = Some exampleNode"
    by (simp add: exampleSession_def)
  have throws: "patchDocument (specLibrary exampleParse) (getJson ?st) exampleNode
                  (parseDraft (specLibrary exampleParse) (draft ?st)) = Inl PatchError"
    by (simp add: specLibrary_patchDocument getJson_def exampleSession_def exampleNode_def)
  show ?thesis
    using handleSave_patch_error [OF node throws]
    by (simp add: exampleSession_def errorText_def PatchError_def errorShown_def)
qed

text \<open>
  The claim as it was stated, that a save at any path that addresses nothing ends in the
  error, does not hold: it is the patcher that decides. In the document \<^verbatim>\<open>{"a": 1}\<close> the
  path \<^verbatim>\<open>["name"]\<close> addresses nothing; a patcher that adds the missing member returns,
  and the save runs to completion, with the new member in both stores, no error, the
  edit mode left and the dialog closed.
\<close>

theorem handleSave_patch_error_counterexample:
  "resolve (JObject [(''a'', JNumber 1)]) [Key ''name''] = None
   \<and> handleSave (insertingLibrary exampleParse) (exampleSession (JObject [(''a'', JNumber 1)]) ''42'')
     = (exampleSession (JObject [(''a'', JNumber 1)]) ''42'')
         \<lparr>json := JObject [(''a'', JNumber 1), (''name'', JNumber 42)],
          fileState := \<lparr>contents = JObject [(''a'', JNumber 1), (''name'', JNumber 42)],
                        hasChanges = False\<rparr>,
          editing := False, opened := False\<rparr>
   \<and> error (handleSave (insertingLibrary exampleParse)
              (exampleSession (JObject [(''a'', JNumber 1)]) ''42'')) = None
   \<and> \<not> editing (handleSave (insertingLibrary exampleParse)
                  (exampleSession (JObject [(''a'', JNumber 1)]) ''42''))
   \<and> \<not> opened (handleSave (insertingLibrary exampleParse)
                 (exampleSession (JObject [(''a'', JNumber 1)]) ''42''))"
proof -
  let ?st = "exampleSession (JObject [(''a'', JNumber 1)]) ''42''"
  have node: "selectedNode ?st = Some exampleNode"
    by (simp add: exampleSession_def)
  have "parseDraft (insertingLibrary exampleParse) (draft ?st) = JNumber 42"
    by (simp add: parseDraft_def insertingLibrary_def exampleParse_def exampleSession_def)
  then have "patchDocument (insertingLibrary exampleParse) (json ?st) exampleNode
          (parseDraft (insertingLibrary exampleParse) (draft ?st))
        = Inr (JObject [(''a'', JNumber 1), (''name'', JNumber 42)])"
    by (simp add: patchDocument_def insertingLibrary_def exampleSession_def exampleNode_def)
  from handleSave_returns [OF node this] show ?thesis
    by (simp add: exampleSession_def)
qed

text \<open>
  C2, as amended. When the draft does not parse as JSON and a node is selected, the parse
  failure is not reported: the value handed to the patcher at the path of the node is the
  draft itself, as a string, and the save runs to completion (both stores hold the patched
  document, the file store has no unsaved changes, the edit mode is left and the dialog
  is closed) whenever that patch succeeds. When the patcher throws, the save fails as in
  C1. The witness is the specification's example: the draft \<^verbatim>\<open>abc\<close> over the member
  \<^verbatim>\<open>name\<close>, which was 42, stores the string \<^verbatim>\<open>"abc"\<close>.
\<close>

theorem handleSave_parse_fallback:
  assumes "JSON_parse lib (draft st) = Inl e"
    and "selectedNode st = Some nodeData"
  shows "parseDraft lib (draft st) = JString (draft st)
       \<and> handleSave lib st =
           (case patchDocument lib (json st) nodeData (JString (draft st)) of
              Inl err \<Rightarrow> st\<lparr>error := Some (errorText err)\<rparr>
            | Inr newJson \<Rightarrow>
                st\<lparr>json := newJson, fileState := \<lparr>contents = newJson, hasChanges = False\<rparr>,
                   editing := False, opened := False\<rparr>)"
proof -
  from assms(1) have fallback: "parseDraft lib (draft st) = JString (draft st)"
    by (simp add: parseDraft_def)
  show ?thesis
  proof (cases "patchDocument lib (json st) nodeData (JString (draft st))")
    case (Inl err)
    with fallback handleSave_throws [OF assms(2), of lib err] show ?thesis by simp
  next
    case (Inr newJson)
    with fallback handleSave_returns [OF assms(2), of lib newJson] show ?thesis by simp
  qed
qed

theorem handleSave_parse_fallback_witness:
  "handleSave (specLibrary exampleParse) (exampleSession (JObject [(''name'', JNumber 42)]) ''abc'')
     = (exampleSession (JObject [(''name'', JNumber 42)]) ''abc'')
         \<lparr>json := JObject [(''name'', JString ''abc'')],
          fileState := \<lparr>contents = JObject [(''name'', JString ''abc'')], hasChanges = False\<rparr>,
          editing := False, opened := False\<rparr>"
proof -
  let ?st = "exampleSession (JObject [(''name'', JNumber 42)]) ''abc''"
  have fails: "JSON_parse (specLibrary exampleParse) (draft ?st)
                 = Inl (JsError ''SyntaxError'' ''Unexpected token'')"
    by (simp add: specLibrary_parse exampleSession_def exampleParse_def)
  have node: "selectedNode ?st = Some exampleNode"
    by (simp add: exampleSession_def)
  have "patchDocument (specLibrary exampleParse) (json ?st) exampleNode (JString (draft ?st))
          = Inr (JObject [(''name'', JString ''abc'')])"
    by (simp add: specLibrary_patchDocument exampleSession_def exampleNode_def)
  with handleSave_parse_fallback [OF fails node] show ?thesis
    by simp
qed

text \<open>
  The claim as it was stated, that a save whose draft does not parse never fails, does not
  hold: with the draft \<^verbatim>\<open>abc\<close> on the document \<^verbatim>\<open>[1]\<close>, where the path \<^verbatim>\<open>["name"]\<close> addresses
  nothing, the save ends with the error set, still editing, the dialog open and the
  document as it was.
\<close>

theorem handleSave_parse_fallback_counterexample:
  "JSON_parse (specLibrary exampleParse) (draft (exampleSession (JArray [JNumber 1]) ''abc''))
     = Inl (JsError ''SyntaxError'' ''Unexpected token'')
   \<and> handleSave (specLibrary exampleParse) (exampleSession (JArray [JNumber 1]) ''abc'')
     = (exampleSession (JArray [JNumber 1]) ''abc'')
         \<lparr>error := Some ''PatchError: the path does not address a location''\<rparr>
   \<and> editing (handleSave (specLibrary exampleParse) (exampleSession (JArray [JNumber 1]) ''abc''))
   \<and> opened (handleSave (specLibrary exampleParse) (exampleSession (JArray [JNumber 1]) ''abc''))
   \<and> json (handleSave (specLibrary exampleParse) (exampleSession (JArray [JNumber 1]) ''abc''))
     = JArray [JNumber 1]"
proof -
  let ?st = "exampleSession (JArray [JNumber 1]) ''abc''"
  have node: "selectedNode ?st = Some exampleNode"
    by (simp add: exampleSession_def)
  have "patchDocument (specLibrary exampleParse) (json ?st) exampleNode
          (parseDraft (specLibrary exampleParse) (draft ?st)) = Inl PatchError"
    by (simp add: specLibrary_patchDocument exampleSession_def exampleNode_def)
  from handleSave_throws [OF node this] show ?thesis
    by (simp add: exampleSession_def errorText_def PatchError_def specLibrary_parse exampleParse_def)
qed

text \<open>
  C3, on the patcher of the specification. When the path \<open>p\<close> addresses a scalar of the
  document \<open>d\<close>, the two calls of \<open>handleSave\<close>'s \<^verbatim>\<open>try\<close> block, \<^verbatim>\<open>modify\<close> and then
  \<^verbatim>\<open>applyEdits\<close>, return a document in which the same path addresses the new value \<open>v\<close>.
\<close>

theorem patch_round_trip:
  assumes "resolve d p = Some old" and "is_scalar old"
  shows "\<exists>d'. patchDocument (specLibrary parse) d \<lparr>nodeText = rows, nodePath = Some p\<rparr> v = Inr d'
            \<and> resolve d' p = Some v"
  using assms(1) patch_then_resolve [OF assms(1), of v]
  by (simp add: patchDocument_def specLibrary_def)

theorem patch_round_trip_witness:
  "resolve (JObject [(''items'', JArray [JNumber 1, JNumber 2])]) [Key ''items'', Index 1]
     = Some (JNumber 2)
   \<and> is_scalar (JNumber 2)
   \<and> (\<exists>d'. patchDocument (specLibrary exampleParse)
               (JObject [(''items'', JArray [JNumber 1, JNumber 2])])
               \<lparr>nodeText = [], nodePath = Some [Key ''items'', Index 1]\<rparr> (JString ''abc'') = Inr d'
           \<and> resolve d' [Key ''items'', Index 1] = Some (JString ''abc''))"
proof -
  have addressed:
    "resolve (JObject [(''items'', JArray [JNumber 1, JNumber 2])]) [Key ''items'', Index 1]
       = Some (JNumber 2)"
    by simp
  have scalar: "is_scalar (JNumber 2)"
    by (simp add: is_scalar_def)
  from patch_round_trip [OF addressed scalar, of exampleParse "[]" "JString ''abc''"]
    addressed scalar
  show ?thesis by blast
qed

text \<open>
  C6. Of all that can happen in a session, only a save whose patch succeeds writes to the
  shared document or to the file store: it puts the patched document into both and marks
  the file store as having no unsaved changes. Edit, typing, cancel, close, the effect,
  a new selection, opening or closing from outside, a save with no node selected and a
  save whose patch throws leave both stores as they were.
\<close>

theorem stores_written_by_successful_save_only:
  "stores (handleEdit st) = stores st
   \<and> stores (handleChange s st) = stores st
   \<and> stores (handleCancel st) = stores st
   \<and> stores (handleClose st) = stores st
   \<and> stores (nodeEffect st) = stores st
   \<and> stores (selectNode n st) = stores st
   \<and> stores (setOpened b st) = stores st
   \<and> stores (handleSave lib st) =
       (case selectedNode st of
          None \<Rightarrow> stores st
        | Some nodeData \<Rightarrow>
            (case patchDocument lib (json st) nodeData (parseDraft lib (draft st)) of
               Inl err \<Rightarrow> stores st
             | Inr newJson \<Rightarrow> (newJson, \<lparr>contents = newJson, hasChanges = False\<rparr>)))"
proof -
  have "stores (handleSave lib st) =
       (case selectedNode st of
          None \<Rightarrow> stores st
        | Some nodeData \<Rightarrow>
            (case patchDocument lib (json st) nodeData (parseDraft lib (draft st)) of
               Inl err \<Rightarrow> stores st
             | Inr newJson \<Rightarrow> (newJson, \<lparr>contents = newJson, hasChanges = False\<rparr>)))"
  proof (cases "selectedNode st")
    case None
    then show ?thesis by (simp add: handleSave_no_node)
  next
    case (Some nodeData)
    show ?thesis
    proof (cases "patchDocument lib (json st) nodeData (parseDraft lib (draft st))")
      case (Inl err)
      with Some handleSave_throws [OF Some, of lib err] show ?thesis
        by (simp add: stores_def)
    next
      case (Inr newJson)
      with Some handleSave_returns [OF Some, of lib newJson] show ?thesis
        by (simp add: stores_def)
    qed
  qed
  then show ?thesis
    by (simp add: stores_def handleEdit_def handleChange_def handleCancel_def handleClose_def
        onClose_def nodeEffect_def selectNode_def setOpened_def)
qed

theorem stores_written_by_successful_save_only_witness:
  "stores (handleCancel (exampleSession (JObject [(''name'', JNumber 42)]) ''abc''))
     = (JObject [(''name'', JNumber 42)],
        \<lparr>contents = JObject [(''name'', JNumber 42)], hasChanges = True\<rparr>)
   \<and> stores (handleSave (specLibrary exampleParse)
               (exampleSession (JObject [(''name'', JNumber 42)]) ''abc''))
     = (JObject [(''name'', JString ''abc'')],
        \<lparr>contents = JObject [(''name'', JString ''abc'')], hasChanges = False\<rparr>)
   \<and> stores (handleSave (specLibrary exampleParse) (exampleSession (JArray [JNumber 1]) ''42''))
     = (JArray [JNumber 1], \<lparr>contents = JArray [JNumber 1], hasChanges = True\<rparr>)"
proof -
  let ?ok = "exampleSession (JObject [(''name'', JNumber 42)]) ''abc''"
  let ?stale = "exampleSession (JArray [JNumber 1]) ''42''"
  have "patchDocument (specLibrary exampleParse) (json ?ok) exampleNode
          (parseDraft (specLibrary exampleParse) (draft ?ok))
        = Inr (JObject [(''name'', JString ''abc'')])"
    by (simp add: specLibrary_patchDocument exampleSession_def exampleNode_def parseDraft_def
        specLibrary_parse exampleParse_def)
  moreover have "patchDocument (specLibrary exampleParse) (json ?stale) exampleNode
          (parseDraft (specLibrary exampleParse) (draft ?stale)) = Inl PatchError"
    by (simp add: specLibrary_patchDocument exampleSession_def exampleNode_def)
  moreover have "selectedNode ?ok = Some exampleNode" "selectedNode ?stale = Some exampleNode"
    by (simp_all add: exampleSession_def)
  ultimately show ?thesis
    using stores_written_by_successful_save_only [of ?ok "''x''" None True "specLibrary exampleParse"]
      stores_written_by_successful_save_only [of ?stale "''x''" None True "specLibrary exampleParse"]
    by (simp add: stores_def exampleSession_def)
qed

text \<open>
  C10. With no node selected, \<open>handleSave\<close> returns the session as it found it: the
  document, the file store, the edit mode, the error, the draft and the open dialog.
\<close>

theorem handleSave_without_node:
  "selectedNode st = None \<Longrightarrow> handleSave lib st = st"
  by (simp add: handleSave_def)

theorem handleSave_without_node_witness:
  "handleSave (specLibrary exampleParse)
     ((exampleSession (JObject [(''name'', JNumber 42)]) ''abc'')\<lparr>selectedNode := None\<rparr>)
   = (exampleSession (JObject [(''name'', JNumber 42)]) ''abc'')\<lparr>selectedNode := None\<rparr>"
  using handleSave_without_node
    [of "(exampleSession (JObject [(''name'', JNumber 42)]) ''abc'')\<lparr>selectedNode := None\<rparr>"
        "specLibrary exampleParse"]
  by simp

section \<open>Cancelling and resetting\<close>

text \<open>
  C7. Whatever the session holds, \<open>handleCancel\<close> leaves the edit mode, clears the error
  and sets the draft to the normalized text of the rows of the selected node (of no rows
  when no node is selected). That is the draft the effect had set before the edit: from
  the state the effect leaves, edit followed by any typing and then cancel gives that
  state back exactly. On the node whose one row is the number 42, cancel after any
  typing, and with an error showing, restores the text \<^verbatim>\<open>42\<close>.
\<close>

theorem handleCancel_restores_normalized_text:
  "editing (handleCancel st) = False
   \<and> error (handleCancel st) = None
   \<and> draft (handleCancel st)
       = normalizeNodeData
           (Some (case selectedNode st of None \<Rightarrow> [] | Some nodeData \<Rightarrow> nodeText nodeData))
   \<and> draft (nodeEffect st)
       = normalizeNodeData
           (Some (case selectedNode st of None \<Rightarrow> [] | Some nodeData \<Rightarrow> nodeText nodeData))
   \<and> handleCancel (foldl (\<lambda>s t. handleChange t s) (handleEdit (nodeEffect st)) typed)
       = nodeEffect st
   \<and> handleCancel (handleChange s ((exampleSession d ''typed'')\<lparr>error := Some ''stale''\<rparr>))
       = (exampleSession d ''42'')\<lparr>editing := False\<rparr>
   \<and> draft (handleCancel (handleChange s ((exampleSession d ''typed'')\<lparr>selectedNode := None\<rparr>)))
       = ''{}''"
proof -
  have "handleCancel (handleEdit (nodeEffect st)) = nodeEffect st"
    by (simp add: handleCancel_def handleEdit_def nodeEffect_def selectedRows_def)
  then have "handleCancel (foldl (\<lambda>s t. handleChange t s) (handleEdit (nodeEffect st)) typed)
               = nodeEffect st"
    by (simp add: cancel_after_typing)
  moreover have
    "handleCancel (handleChange s ((exampleSession d ''typed'')\<lparr>error := Some ''stale''\<rparr>))
       = (exampleSession d ''42'')\<lparr>editing := False\<rparr>"
    by (simp add: handleCancel_def handleChange_def selectedRows_def exampleSession_def
        exampleNode_def evaluation)
  moreover have
    "draft (handleCancel (handleChange s ((exampleSession d ''typed'')\<lparr>selectedNode := None\<rparr>)))
       = ''{}''"
    by (simp add: handleCancel_def handleChange_def selectedRows_def exampleSession_def
        normalizeNodeData_def)
  ultimately show ?thesis
    by (simp add: handleCancel_def nodeEffect_def selectedRows_def)
qed

text \<open>
  C8. When another node is selected, and when the dialog is opened again, the effect runs
  whatever state the session is in: it leaves the edit mode, clears the error and sets the
  draft to the normalized text of the rows of the node that is now selected.
\<close>

theorem nodeEffect_resets_session:
  "editing (selectNode n st) = False
   \<and> error (selectNode n st) = None
   \<and> draft (selectNode n st)
       = normalizeNodeData (Some (case n of None \<Rightarrow> [] | Some nodeData \<Rightarrow> nodeText nodeData))
   \<and> selectedNode (selectNode n st) = n
   \<and> (\<not> opened st \<longrightarrow>
         opened (setOpened True st)
       \<and> editing (setOpened True st) = False
       \<and> error (setOpened True st) = None
       \<and> draft (setOpened True st) = normalizeNodeData (Some (selectedRows st)))"
  by (simp add: selectNode_def setOpened_def nodeEffect_def selectedRows_def)

theorem nodeEffect_resets_session_witness:
  "\<not> opened ((exampleSession (JArray []) ''typed'')\<lparr>opened := False, error := Some ''stale''\<rparr>)
   \<and> opened (setOpened True
        ((exampleSession (JArray []) ''typed'')\<lparr>opened := False, error := Some ''stale''\<rparr>))
   \<and> editing (setOpened True
        ((exampleSession (JArray []) ''typed'')\<lparr>opened := False, error := Some ''stale''\<rparr>)) = False
   \<and> error (setOpened True
        ((exampleSession (JArray []) ''typed'')\<lparr>opened := False, error := Some ''stale''\<rparr>)) = None
   \<and> draft (setOpened True
        ((exampleSession (JArray []) ''typed'')\<lparr>opened := False, error := Some ''stale''\<rparr>)) = ''42''"
proof -
  let ?st = "(exampleSession (JArray []) ''typed'')\<lparr>opened := False, error := Some ''stale''\<rparr>"
  have closed: "\<not> opened ?st"
    by simp
  have "normalizeNodeData (Some (selectedRows ?st)) = ''42''"
    by (simp add: selectedRows_def exampleSession_def exampleNode_def evaluation)
  with nodeEffect_resets_session [of None ?st] closed show ?thesis
    by simp
qed

section \<open>The two helpers\<close>

text \<open>
  C5. \<open>jsonPathToString\<close> gives \<^verbatim>\<open>$\<close> for a missing and for an empty path, and otherwise
  \<^verbatim>\<open>$\<close> followed by every segment in brackets: a number as its decimal numeral, a string
  between two double quotes and otherwise as it is, so that a quote inside a key is not
  escaped. The examples have the indices 0, 5, 10, 1234 and -1.
\<close>

theorem jsonPathToString_renders:
  \<open>jsonPathToString None = ''$''
   \<and> jsonPathToString (Some []) = ''$''
   \<and> jsonPathToString (Some segs) = ''$'' @ concat (map bracketed segs)
   \<and> bracketed (Index n) = ''['' @ Number_toString n @ '']''
   \<and> bracketed (Key k) = ''['' @ [dquote] @ k @ [dquote] @ '']''
   \<and> jsonPathToString (Some [Key ''a'', Index 0, Key ''b'']) = ''$["a"][0]["b"]''
   \<and> jsonPathToString (Some [Key ''items'', Index 5, Index 10]) = ''$["items"][5][10]''
   \<and> jsonPathToString (Some [Index 1234, Key ''x'', Index (- 1)]) = ''$[1234]["x"][-1]''
   \<and> bracketed (Index 10) = ''[10]''
   \<and> bracketed (Key ''key'') = ''["key"]''
   \<and> jsonPathToString (Some [Key ''a"b'']) = ''$["a"b"]''\<close>
proof -
  have "jsonPathToString (Some segs) = ''$'' @ concat (map bracketed segs)"
  proof (cases "segs = []")
    case True
    then show ?thesis by (simp add: jsonPathToString_def)
  next
    case False
    from join_brackets [OF this, of segmentText] False show ?thesis
      by (simp add: jsonPathToString_def bracketed_segmentText)
  qed
  then show ?thesis
    by (simp add: jsonPathToString_def bracketed_def segmentText_def Number_toString_def
        digit_char_def dquote_def)
qed




text \<open>
  C9. A row whose key is missing or empty changes nothing in the loop, whatever its type.
  So unless the rows are the single keyless row of the second case, the result is the
  same with those rows left out; and every key of the object that is built is the key,
  not empty, of a row whose type is neither array nor object.
\<close>

theorem keyless_rows_are_omitted:
  "(falsy_key (key r) \<longrightarrow> addRow obj r = obj)
   \<and> (\<not> (length rows = 1 \<and> falsy_key (key (hd rows))) \<longrightarrow>
        normalizeNodeData (Some rows)
          = normalizeNodeData (Some (filter (\<lambda>r. \<not> falsy_key (key r)) rows)))
   \<and> (k \<in> fst ` set (props (foldl addRow new_object rows)) \<longrightarrow>
        (\<exists>r\<in>set rows. key r = Some k \<and> k \<noteq> [] \<and> scalarRow r))"
  using normalize_drops_falsy [of rows] foldl_addRow_keys [of k new_object rows]
  by (auto simp: addRow_falsy new_object_def)

theorem keyless_rows_are_omitted_witness:
  "addRow new_object \<lparr>key = None, val = JNumber 1, type = Some ''number''\<rparr> = new_object
   \<and> normalizeNodeData (Some [\<lparr>key = None, val = JNumber 1, type = Some ''number''\<rparr>,
                              \<lparr>key = Some [], val = JNumber 3, type = Some ''number''\<rparr>,
                              \<lparr>key = Some ''a'', val = JNumber 2, type = Some ''number''\<rparr>])
     = normalizeNodeData (Some [\<lparr>key = Some ''a'', val = JNumber 2, type = Some ''number''\<rparr>])
   \<and> ''a'' \<in> fst ` set (props (foldl addRow new_object
        [\<lparr>key = None, val = JNumber 1, type = Some ''number''\<rparr>,
         \<lparr>key = Some [], val = JNumber 3, type = Some ''number''\<rparr>,
         \<lparr>key = Some ''a'', val = JNumber 2, type = Some ''number''\<rparr>]))"
proof -
  let ?r = "\<lparr>key = None, val = JNumber 1, type = Some ''number''\<rparr>"
  let ?rows = "[?r, \<lparr>key = Some [], val = JNumber 3, type = Some ''number''\<rparr>,
                \<lparr>key = Some ''a'', val = JNumber 2, type = Some ''number''\<rparr>]"
  have keyless: "falsy_key (key ?r)"
    by (simp add: falsy_key_def)
  have many: "\<not> (length ?rows = 1 \<and> falsy_key (key (hd ?rows)))"
    by simp
  have kept: "filter (\<lambda>r. \<not> falsy_key (key r)) ?rows
                = [\<lparr>key = Some ''a'', val = JNumber 2, type = Some ''number''\<rparr>]"
    by (simp add: falsy_key_def)
  have member: "''a'' \<in> fst ` set (props (foldl addRow new_object ?rows))"
    by (simp add: addRow_def js_set_def new_object_def)
  from keyless_rows_are_omitted [of ?r new_object ?rows "''a''"] keyless many member
  show ?thesis
    unfolding kept by blast
qed

section \<open>Further properties\<close>

text \<open>
  Closing the dialog, from either state, is cancel and close: the session that
  \<open>handleClose\<close> leaves is the one \<open>handleCancel\<close> leaves, with the dialog closed.
\<close>

theorem handleClose_is_cancel_then_close:
  "handleClose st = (handleCancel st)\<lparr>opened := False\<rparr>"
  by (simp add: handleClose_def handleCancel_def onClose_def selectedRows_def)

text \<open>
  A row whose key is \<^verbatim>\<open>__proto__\<close> and whose value is a number adds no member: the
  assignment runs the accessor that a plain object inherits, which ignores a number and
  creates no property.
\<close>

theorem normalizeNodeData_proto_row:
  \<open>normalizeNodeData (Some [\<lparr>key = Some ''__proto__'', val = JNumber 1, type = Some ''number''\<rparr>,
                            \<lparr>key = Some ''a'', val = JNumber 2, type = Some ''number''\<rparr>])
     = ''{'' @ [newline] @ ''  "a": 2'' @ [newline] @ ''}''\<close>
  by (simp add: evaluation)

text \<open>
  The members come in the order of JavaScript's own property keys, not of the rows: keys
  that are array indices first, ascending, and a key that occurs twice keeps its first
  place and its last value.
\<close>

theorem normalizeNodeData_member_order:
  \<open>normalizeNodeData (Some [\<lparr>key = Some ''b'', val = JNumber 1, type = Some ''number''\<rparr>,
                            \<lparr>key = Some ''10'', val = JNumber 2, type = Some ''number''\<rparr>,
                            \<lparr>key = Some ''9'', val = JNumber 3, type = Some ''number''\<rparr>,
                            \<lparr>key = Some ''b'', val = JBool True, type = Some ''boolean''\<rparr>])
     = ''{'' @ [newline] @ ''  "9": 3,'' @ [newline] @ ''  "10": 2,'' @ [newline]
         @ ''  "b": true'' @ [newline] @ ''}''\<close>
  by (simp add: evaluation)

end
